theory Spec2Isabelle
  imports Complex_Main
begin

section \<open>JavaScript values and the object store\<close>

text \<open>
  The constructor of \<open>RuleTester\<close> (RuleTester.ts) reads and writes properties of the
  object its caller passes in, so the model keeps objects in a store and values that are
  objects or arrays are references into it. Two references to the same address are the
  same object: a write through one is seen through the other.

  Configuration objects are plain data (\<open>RuleTesterConfig\<close>, \<open>ParserOptions\<close>): own data
  properties only, no accessors, no proxies, not frozen. A property that an object does
  not have reads as \<open>undefined\<close>.
\<close>

type_synonym addr = nat

datatype jsnum = NaN | Infinite bool | Finite real

datatype jsval =
    JUndefined
  | JNull
  | JBool bool
  | JNum jsnum
  | JStr string
  | JObj addr

type_synonym obj = "string \<rightharpoonup> jsval"

type_synonym store = "addr \<Rightarrow> obj"

datatype js_error = TypeError | Thrown string

definition bindE :: "'e + 'a \<Rightarrow> ('a \<Rightarrow> 'e + 'b) \<Rightarrow> 'e + 'b" where
  "bindE m k = (case m of Inl e \<Rightarrow> Inl e | Inr x \<Rightarrow> k x)"

text \<open>The \<open>typeof\<close> operator.\<close>

fun js_typeof :: "jsval \<Rightarrow> string" where
  "js_typeof JUndefined = ''undefined''"
| "js_typeof JNull = ''object''"
| "js_typeof (JBool b) = ''boolean''"
| "js_typeof (JNum n) = ''number''"
| "js_typeof (JStr s) = ''string''"
| "js_typeof (JObj a) = ''object''"

text \<open>
  Truthiness, as the condition of an \<open>if\<close> and the left operand of \<open>||\<close> use it:
  \<open>undefined\<close>, \<open>null\<close>, \<open>false\<close>, \<open>0\<close>, \<open>NaN\<close> and the empty string are falsy, every
  object (an empty array too) is truthy.
\<close>

fun truthy :: "jsval \<Rightarrow> bool" where
  "truthy JUndefined = False"
| "truthy JNull = False"
| "truthy (JBool b) = b"
| "truthy (JNum n) = (n \<noteq> NaN \<and> n \<noteq> Finite 0)"
| "truthy (JStr s) = (s \<noteq> [])"
| "truthy (JObj a) = True"

text \<open>\<open>a || b\<close>: the left operand when it is truthy, the right one otherwise.\<close>

definition js_or :: "jsval \<Rightarrow> jsval \<Rightarrow> jsval" where
  "js_or a b = (if truthy a then a else b)"

text \<open>
  \<open>v.f\<close>: a TypeError on \<open>undefined\<close> and \<open>null\<close>; on an object the property, or
  \<open>undefined\<close> when it has none of that name; on any other primitive \<open>undefined\<close>
  (none of the names read here is a property of a primitive's prototype).
\<close>

fun get_prop :: "store \<Rightarrow> jsval \<Rightarrow> string \<Rightarrow> js_error + jsval" where
  "get_prop h JUndefined f = Inl TypeError"
| "get_prop h JNull f = Inl TypeError"
| "get_prop h (JObj a) f = Inr (case h a f of None \<Rightarrow> JUndefined | Some v \<Rightarrow> v)"
| "get_prop h v f = Inr JUndefined"

text \<open>\<open>v?.f\<close>: \<open>undefined\<close> when \<open>v\<close> is \<open>undefined\<close> or \<open>null\<close>, and \<open>v.f\<close> otherwise.\<close>

fun opt_get :: "store \<Rightarrow> jsval \<Rightarrow> string \<Rightarrow> jsval" where
  "opt_get h JUndefined f = JUndefined"
| "opt_get h JNull f = JUndefined"
| "opt_get h (JObj a) f = (case h a f of None \<Rightarrow> JUndefined | Some v \<Rightarrow> v)"
| "opt_get h v f = JUndefined"

text \<open>
  \<open>v.f = x\<close> in strict code (a module): the object at that address gets the property;
  on anything that is not an object the assignment throws a TypeError.
\<close>

fun set_prop :: "store \<Rightarrow> jsval \<Rightarrow> string \<Rightarrow> jsval \<Rightarrow> js_error + store" where
  "set_prop h (JObj a) f x = Inr (h(a := (h a)(f \<mapsto> x)))"
| "set_prop h v f x = Inl TypeError"

section \<open>The RuleTester class\<close>

text \<open>
  The superclass is the test runner of the linting engine, which RuleTester.ts imports
  and does not define. Its constructor and its \<open>run\<close> method are parameters of the model:
  a superclass constructor takes the configuration and the store, and either throws or
  returns the new instance and the store as it leaves it.
\<close>

type_synonym 'inst super_constructor = "jsval \<Rightarrow> store \<Rightarrow> js_error + ('inst \<times> store)"

text \<open>
  The right-hand side of the assignment,
  \<^verbatim>\<open>typeof testerConfig.parserOptions.noWatch === 'boolean' || true\<close>,
  given the value \<open>nw\<close> that \<open>testerConfig.parserOptions.noWatch\<close> has.
\<close>

definition noWatch_rhs :: "jsval \<Rightarrow> jsval" where
  "noWatch_rhs nw = js_or (JBool (js_typeof nw = ''boolean'')) (JBool True)"

text \<open>The condition of the \<open>if\<close>: \<^verbatim>\<open>testerConfig?.parserOptions?.project\<close>.\<close>

definition project_chain :: "store \<Rightarrow> jsval \<Rightarrow> jsval" where
  "project_chain h testerConfig = opt_get h (opt_get h testerConfig ''parserOptions'') ''project''"

text \<open>
  \<^verbatim>\<open>
  constructor(testerConfig?: RuleTesterConfig) {
    super(testerConfig);
    if (testerConfig?.parserOptions?.project) {
      testerConfig.parserOptions.noWatch =
        typeof testerConfig.parserOptions.noWatch === 'boolean' || true;
    }
  }
  \<close>
  An absent argument is \<open>undefined\<close>. The assignment evaluates its target object
  \<open>testerConfig.parserOptions\<close>, then the right-hand side, then writes.
\<close>

definition RuleTester_constructor ::
  "'inst super_constructor \<Rightarrow> jsval \<Rightarrow> store \<Rightarrow> js_error + ('inst \<times> store)" where
  "RuleTester_constructor super testerConfig h =
     bindE (super testerConfig h) (\<lambda>(this, h1).
       if truthy (project_chain h1 testerConfig) then
         bindE (get_prop h1 testerConfig ''parserOptions'') (\<lambda>target.
         bindE (get_prop h1 testerConfig ''parserOptions'') (\<lambda>po.
         bindE (get_prop h1 po ''noWatch'') (\<lambda>nw.
         bindE (set_prop h1 target ''noWatch'' (noWatch_rhs nw)) (\<lambda>h2.
           Inr (this, h2)))))
       else Inr (this, h1))"

text \<open>
  \<^verbatim>\<open>
  run(ruleName, rule, tests): void {
    super.run(ruleName, rule, tests);
  }
  \<close>
  The superclass method runs on the same instance, in a world \<open>'w\<close> of its own (its
  assertions, its reports), and either throws or returns the world it leaves.
\<close>

type_synonym ('inst, 'rule, 'tests, 'w) super_run =
  "'inst \<Rightarrow> string \<Rightarrow> 'rule \<Rightarrow> 'tests \<Rightarrow> 'w \<Rightarrow> js_error + 'w"

definition RuleTester_run ::
  "('inst, 'rule, 'tests, 'w) super_run \<Rightarrow> 'inst \<Rightarrow> string \<Rightarrow> 'rule \<Rightarrow> 'tests \<Rightarrow> 'w
     \<Rightarrow> js_error + 'w" where
  "RuleTester_run super_run this ruleName rule tests w =
     bindE (super_run this ruleName rule tests w) (\<lambda>w1. Inr w1)"

text \<open>What a caller reads after construction: \<^verbatim>\<open>testerConfig.parserOptions.noWatch\<close>.\<close>

definition read_noWatch :: "store \<Rightarrow> jsval \<Rightarrow> js_error + jsval" where
  "read_noWatch h testerConfig =
     bindE (get_prop h testerConfig ''parserOptions'') (\<lambda>po. get_prop h po ''noWatch'')"

subsection \<open>A concrete configuration\<close>

text \<open>
  A superclass constructor that keeps the configuration value it is given as the
  instance and leaves the store alone.
\<close>

definition keep_super :: "jsval super_constructor" where
  "keep_super testerConfig h = Inr (testerConfig, h)"

text \<open>
  \<^verbatim>\<open>{ parser: '/p', parserOptions: { project: './tsconfig.json', noWatch: false } }\<close>:
  the configuration object at address 0, its parser options at address 1.
\<close>

definition project_store :: store where
  "project_store =
     (\<lambda>a. Map.empty)
       (0 := [''parser'' \<mapsto> JStr ''/p'', ''parserOptions'' \<mapsto> JObj 1],
        1 := [''project'' \<mapsto> JStr ''./tsconfig.json'', ''noWatch'' \<mapsto> JBool False])"

text \<open>
  \<^verbatim>\<open>{ parser: '/p', parserOptions: { project: '', sourceType: 'module' } }\<close>: the
  project is the empty string, which is falsy.
\<close>

definition plain_store :: store where
  "plain_store =
     (\<lambda>a. Map.empty)
       (0 := [''parser'' \<mapsto> JStr ''/p'', ''parserOptions'' \<mapsto> JObj 1],
        1 := [''project'' \<mapsto> JStr '''', ''sourceType'' \<mapsto> JStr ''module''])"

section \<open>Properties\<close>

lemma bindE_Inr: "bindE (Inr x) k = k x"
  by (simp add: bindE_def)

text \<open>A truthy optional read comes from an object: the base was a reference.\<close>

lemma truthy_opt_get_obj:
  assumes "truthy (opt_get h v f)"
  obtains a where "v = JObj a"
  using assms by (cases v) simp_all

lemma project_chain_objs:
  assumes "truthy (project_chain h testerConfig)"
  obtains c a where "testerConfig = JObj c"
    and "opt_get h testerConfig ''parserOptions'' = JObj a"
proof -
  from assms obtain a where a: "opt_get h testerConfig ''parserOptions'' = JObj a"
    unfolding project_chain_def by (rule truthy_opt_get_obj)
  then have "truthy (opt_get h testerConfig ''parserOptions'')" by simp
  then obtain c where "testerConfig = JObj c" by (rule truthy_opt_get_obj)
  with a that show thesis by blast
qed

lemma get_prop_obj: "get_prop h (JObj c) f = Inr (opt_get h (JObj c) f)"
  by simp

lemma noWatch_rhs_true: "noWatch_rhs nw = JBool True"
  by (simp add: noWatch_rhs_def js_or_def)

text \<open>
  With a truthy project, the body after \<open>super\<close> writes \<open>true\<close> to the \<open>noWatch\<close>
  property of the object that \<open>testerConfig.parserOptions\<close> refers to, and nothing else.
\<close>

lemma constructor_truthy:
  assumes sup: "super testerConfig h = Inr (this, h1)"
    and po: "opt_get h1 testerConfig ''parserOptions'' = JObj a"
    and tr: "truthy (project_chain h1 testerConfig)"
  shows "RuleTester_constructor super testerConfig h =
           Inr (this, h1(a := (h1 a)(''noWatch'' \<mapsto> JBool True)))"
proof -
  from tr obtain c where c: "testerConfig = JObj c"
    by (rule project_chain_objs)
  have g: "get_prop h1 testerConfig ''parserOptions'' = Inr (JObj a)"
    using po unfolding c get_prop_obj by simp
  show ?thesis
    unfolding RuleTester_constructor_def sup bindE_Inr
    using tr by (simp add: g bindE_Inr noWatch_rhs_true)
qed

lemma constructor_falsy:
  assumes sup: "super testerConfig h = Inr (this, h1)"
    and fl: "\<not> truthy (project_chain h1 testerConfig)"
  shows "RuleTester_constructor super testerConfig h = Inr (this, h1)"
  unfolding RuleTester_constructor_def sup bindE_Inr using fl by simp

lemma read_noWatch_after_write:
  assumes "opt_get h1 (JObj c) ''parserOptions'' = JObj a"
  shows "read_noWatch (h1(a := (h1 a)(''noWatch'' \<mapsto> x))) (JObj c) = Inr x"
proof (cases "c = a")
  case True
  with assms show ?thesis
    by (simp add: read_noWatch_def bindE_def split: option.splits)
next
  case False
  with assms show ?thesis
    by (simp add: read_noWatch_def bindE_def split: option.splits)
qed

subsection \<open>The constructor\<close>

text \<open>
  C1. For every tester configuration passed to the constructor whose parser options
  request a project (\<open>parserOptions.project\<close> is set and truthy), after construction the
  configuration's \<open>parserOptions.noWatch\<close> is \<open>true\<close>: watching is forced off.
  The superclass constructor runs first and is a parameter; the project is read from the
  store it leaves (the store it was given, when it writes nothing), and the constructor
  then returns with \<open>testerConfig.parserOptions.noWatch\<close> reading \<open>true\<close>.
\<close>

theorem constructor_forces_noWatch:
  assumes "super testerConfig h = Inr (this, h1)"
    and "truthy (project_chain h1 testerConfig)"
  shows "\<exists>h2. RuleTester_constructor super testerConfig h = Inr (this, h2)
            \<and> read_noWatch h2 testerConfig = Inr (JBool True)"
proof -
  from assms(2) obtain c a where c: "testerConfig = JObj c"
    and a: "opt_get h1 testerConfig ''parserOptions'' = JObj a"
    by (rule project_chain_objs)
  let ?h2 = "h1(a := (h1 a)(''noWatch'' \<mapsto> JBool True))"
  have "RuleTester_constructor super testerConfig h = Inr (this, ?h2)"
    using assms(1) a assms(2) by (rule constructor_truthy)
  moreover have "read_noWatch ?h2 testerConfig = Inr (JBool True)"
    unfolding c using a [unfolded c] by (rule read_noWatch_after_write)
  ultimately show ?thesis by blast
qed

theorem constructor_forces_noWatch_witness:
  "keep_super (JObj 0) project_store = Inr (JObj 0, project_store)
   \<and> truthy (project_chain project_store (JObj 0))
   \<and> read_noWatch project_store (JObj 0) = Inr (JBool False)
   \<and> (\<exists>h2. RuleTester_constructor keep_super (JObj 0) project_store = Inr (JObj 0, h2)
          \<and> read_noWatch h2 (JObj 0) = Inr (JBool True))"
proof -
  have s: "keep_super (JObj 0) project_store = Inr (JObj 0, project_store)"
    by (simp add: keep_super_def)
  have t: "truthy (project_chain project_store (JObj 0))"
    by (simp add: project_chain_def project_store_def)
  have r: "read_noWatch project_store (JObj 0) = Inr (JBool False)"
    by (simp add: read_noWatch_def project_store_def bindE_def)
  from s t r constructor_forces_noWatch [of keep_super "JObj 0" project_store "JObj 0" project_store, OF s t] show ?thesis by blast
qed

text \<open>
  C9. When the project is truthy, the value assigned to \<open>parserOptions.noWatch\<close> is
  \<^verbatim>\<open>typeof parserOptions.noWatch === 'boolean' || true\<close>, which is \<open>true\<close> for every
  prior value of \<open>noWatch\<close>; the write goes to the object the caller passed in (the
  object at the address that \<open>testerConfig.parserOptions\<close> refers to), so a caller who
  set \<open>noWatch\<close> to \<open>false\<close> finds \<open>true\<close> there after construction.
\<close>

theorem noWatch_overwritten_in_place:
  assumes "super testerConfig h = Inr (this, h1)"
    and "opt_get h1 testerConfig ''parserOptions'' = JObj a"
    and "truthy (opt_get h1 (JObj a) ''project'')"
  shows "(\<forall>prior. noWatch_rhs prior = JBool True)
     \<and> RuleTester_constructor super testerConfig h =
         Inr (this, h1(a := (h1 a)(''noWatch'' \<mapsto> noWatch_rhs (opt_get h1 (JObj a) ''noWatch''))))
     \<and> (\<exists>h2. RuleTester_constructor super testerConfig h = Inr (this, h2)
            \<and> h2 a ''noWatch'' = Some (JBool True))"
proof -
  have tr: "truthy (project_chain h1 testerConfig)"
    unfolding project_chain_def assms(2) by (rule assms(3))
  have run: "RuleTester_constructor super testerConfig h =
      Inr (this, h1(a := (h1 a)(''noWatch'' \<mapsto> JBool True)))"
    using assms(1) assms(2) tr by (rule constructor_truthy)
  have "(h1(a := (h1 a)(''noWatch'' \<mapsto> JBool True))) a ''noWatch'' = Some (JBool True)"
    by simp
  with run show ?thesis
    unfolding noWatch_rhs_true by blast
qed

theorem noWatch_overwritten_in_place_witness:
  "keep_super (JObj 0) project_store = Inr (JObj 0, project_store)
   \<and> opt_get project_store (JObj 0) ''parserOptions'' = JObj 1
   \<and> truthy (opt_get project_store (JObj 1) ''project'')
   \<and> project_store 1 ''noWatch'' = Some (JBool False)
   \<and> noWatch_rhs (JBool False) = JBool True
   \<and> (\<exists>h2. RuleTester_constructor keep_super (JObj 0) project_store = Inr (JObj 0, h2)
          \<and> h2 1 ''noWatch'' = Some (JBool True))"
proof -
  have s: "keep_super (JObj 0) project_store = Inr (JObj 0, project_store)"
    by (simp add: keep_super_def)
  have p: "opt_get project_store (JObj 0) ''parserOptions'' = JObj 1"
    by (simp add: project_store_def)
  have t: "truthy (opt_get project_store (JObj 1) ''project'')"
    by (simp add: project_store_def)
  have f: "project_store 1 ''noWatch'' = Some (JBool False)"
    by (simp add: project_store_def)
  from s p t f noWatch_overwritten_in_place [of keep_super "JObj 0" project_store "JObj 0" project_store 1, OF s p t] show ?thesis by blast
qed

text \<open>
  C10. The constructor changes at most the \<open>noWatch\<close> property of
  \<open>testerConfig.parserOptions\<close>. Once the superclass constructor has returned, the
  constructor returns too, with the same instance. When \<open>testerConfig\<close> is absent, or
  \<open>parserOptions\<close> is absent, or \<open>project\<close> is absent or falsy, the store is the one the
  superclass constructor left: no property of any object has changed. When \<open>project\<close> is
  truthy, every property of every object other than \<open>noWatch\<close> of the parser options
  object is as the superclass constructor left it.
\<close>

theorem constructor_frame:
  assumes "super testerConfig h = Inr (this, h1)"
  shows "\<exists>h2. RuleTester_constructor super testerConfig h = Inr (this, h2)
     \<and> (testerConfig = JUndefined
          \<or> opt_get h1 testerConfig ''parserOptions'' = JUndefined
          \<or> \<not> truthy (project_chain h1 testerConfig) \<longrightarrow> h2 = h1)
     \<and> (truthy (project_chain h1 testerConfig) \<longrightarrow>
          (\<exists>a. opt_get h1 testerConfig ''parserOptions'' = JObj a
             \<and> (\<forall>b f. (b, f) \<noteq> (a, ''noWatch'') \<longrightarrow> h2 b f = h1 b f)))"
proof (cases "truthy (project_chain h1 testerConfig)")
  case True
  then obtain c a where a: "opt_get h1 testerConfig ''parserOptions'' = JObj a"
    and c: "testerConfig = JObj c"
    by (rule project_chain_objs)
  let ?h2 = "h1(a := (h1 a)(''noWatch'' \<mapsto> JBool True))"
  have run: "RuleTester_constructor super testerConfig h = Inr (this, ?h2)"
    using assms a True by (rule constructor_truthy)
  have frame: "\<forall>b f. (b, f) \<noteq> (a, ''noWatch'') \<longrightarrow> ?h2 b f = h1 b f"
    by simp
  from run a c True frame show ?thesis by auto
next
  case False
  with assms have run: "RuleTester_constructor super testerConfig h = Inr (this, h1)"
    by (rule constructor_falsy)
  with False show ?thesis by simp
qed

theorem constructor_frame_witness:
  "(\<exists>h2. RuleTester_constructor keep_super JUndefined plain_store = Inr (JUndefined, h2)
        \<and> h2 = plain_store)
   \<and> (\<exists>h2. RuleTester_constructor keep_super (JObj 1) plain_store = Inr (JObj 1, h2)
        \<and> h2 = plain_store)
   \<and> (\<exists>h2. RuleTester_constructor keep_super (JObj 0) plain_store = Inr (JObj 0, h2)
        \<and> h2 = plain_store)
   \<and> truthy (project_chain project_store (JObj 0))
   \<and> (\<exists>h2. RuleTester_constructor keep_super (JObj 0) project_store = Inr (JObj 0, h2)
        \<and> h2 0 ''parser'' = project_store 0 ''parser''
        \<and> h2 0 ''parserOptions'' = project_store 0 ''parserOptions''
        \<and> h2 0 ''noWatch'' = project_store 0 ''noWatch''
        \<and> h2 1 ''project'' = project_store 1 ''project'')"
proof -
  have s: "keep_super v st = Inr (v, st)" for v st
    by (simp add: keep_super_def)
  have u: "opt_get plain_store (JObj 1) ''parserOptions'' = JUndefined"
    by (simp add: plain_store_def)
  have e: "\<not> truthy (project_chain plain_store (JObj 0))"
    by (simp add: project_chain_def plain_store_def)
  have t: "truthy (project_chain project_store (JObj 0))"
    by (simp add: project_chain_def project_store_def)
  have p: "opt_get project_store (JObj 0) ''parserOptions'' = JObj 1"
    by (simp add: project_store_def)
  from constructor_frame [of keep_super JUndefined plain_store JUndefined plain_store, OF s]
  have 1: "\<exists>h2. RuleTester_constructor keep_super JUndefined plain_store = Inr (JUndefined, h2)
        \<and> h2 = plain_store"
    by auto
  from constructor_frame [of keep_super "JObj 1" plain_store "JObj 1" plain_store, OF s] u
  have 2: "\<exists>h2. RuleTester_constructor keep_super (JObj 1) plain_store = Inr (JObj 1, h2)
        \<and> h2 = plain_store"
    by auto
  from constructor_frame [of keep_super "JObj 0" plain_store "JObj 0" plain_store, OF s] e
  have 3: "\<exists>h2. RuleTester_constructor keep_super (JObj 0) plain_store = Inr (JObj 0, h2)
        \<and> h2 = plain_store"
    by auto
  from constructor_frame [of keep_super "JObj 0" project_store "JObj 0" project_store, OF s] t p
  have 4: "\<exists>h2. RuleTester_constructor keep_super (JObj 0) project_store = Inr (JObj 0, h2)
        \<and> h2 0 ''parser'' = project_store 0 ''parser''
        \<and> h2 0 ''parserOptions'' = project_store 0 ''parserOptions''
        \<and> h2 0 ''noWatch'' = project_store 0 ''noWatch''
        \<and> h2 1 ''project'' = project_store 1 ''project''"
    by auto
  from 1 2 3 t 4 show ?thesis by blast
qed

subsection \<open>The run method\<close>

text \<open>
  C8. For every rule name, rule and test collection, \<open>run\<close> calls the superclass \<open>run\<close>
  on the same instance with the same three arguments and does nothing else: it throws
  what the superclass method throws and leaves the world the superclass method leaves.
\<close>

theorem run_is_super_run:
  "RuleTester_run super_run this ruleName rule tests w = super_run this ruleName rule tests w"
  by (cases "super_run this ruleName rule tests w") (simp_all add: RuleTester_run_def bindE_def)

end
